theory Spec2Isabelle
  imports Main "HOL-Library.Word"
begin

section \<open>Data model of the cross-shard pool (package xshard)\<close>

text \<open>
  \<^verbatim>\<open>common.Uint256\<close> is a 256-bit hash value and \<^verbatim>\<open>common.ShardID\<close> wraps one
  \<^verbatim>\<open>uint64\<close>: \<^verbatim>\<open>ToUint64\<close> reads it and \<^verbatim>\<open>NewShardIDUnchecked\<close> wraps it back.
  Block heights are \<^verbatim>\<open>uint32\<close>. The batch payload carried by a message is opaque to
  the pool and is kept as a byte string.
\<close>

type_synonym Uint256 = "256 word"
type_synonym ShardID = "64 word"
type_synonym ShardMsgs = "8 word list"

definition ToUint64 :: "ShardID \<Rightarrow> 64 word" where
  "ToUint64 s = s"

definition NewShardIDUnchecked :: "64 word \<Rightarrow> ShardID" where
  "NewShardIDUnchecked w = w"

text \<open>The zero value of \<^verbatim>\<open>common.Uint256\<close>, which a Go call returns beside an error.\<close>

definition UINT256_EMPTY :: Uint256 where
  "UINT256_EMPTY = 0"

record CrossShardMsgInfo =
  FromShardID :: ShardID
  MsgHeight :: "32 word"
  PreCrossShardMsgHash :: Uint256
  CrossShardMsgRoot :: Uint256

record CrossShardMsg =
  MsgInfo :: CrossShardMsgInfo
  ShardMsg :: ShardMsgs

record 'tx CrossShardTxInfos =
  TxShardMsg :: CrossShardMsgInfo
  Tx :: 'tx

text \<open>
  The pool: \<^verbatim>\<open>Shards\<close> is indexed by the source shard and then by the message's
  \<^verbatim>\<open>PreCrossShardMsgHash\<close>. Every inner map is made by \<^verbatim>\<open>make\<close>, so no inner
  map is ever nil and the two nil-map guards of the source cannot fire; the model has no
  nil inner map.
\<close>

record CrossShardPool =
  PoolShardID :: ShardID
  Shards :: "64 word \<rightharpoonup> (Uint256 \<rightharpoonup> CrossShardMsg)"
  MaxBlockCap :: "32 word"
  ShardInfo :: "ShardID \<rightharpoonup> bool"

text \<open>
  Errors as values. \<open>ErrNotFound\<close> is \<^verbatim>\<open>com.ErrNotFound\<close>, which the source compares
  by identity; \<open>ErrStore\<close> and \<open>ErrBuild\<close> stand for any other failure of the ledger
  store and of the transaction builder. The remaining constructors are the
  \<^verbatim>\<open>fmt.Errorf\<close> sites of the pool, with the values they name.
\<close>

datatype error =
    ErrNotFound
  | ErrStore
  | ErrBuild
  | GetAllShardIDsFailed error
  | InitGetCrossShardHashFailed ShardID error
  | InitGetCrossShardMsgFailed Uint256 error
  | SaveCrossShardMsgFailed ShardID Uint256 error
  | AddGetCrossShardHashFailed ShardID error
  | AddSaveCrossShardHashFailed ShardID error
  | GetShardMsgsInBlockFailed "32 word" ShardID error
  | NewCrossShardTxMsgFailed "32 word" error
  | GetCrossShardMsgByHashFailed Uint256 error

subsection \<open>The ledger store\<close>

text \<open>
  Modelled from the spec: the ledger (\<^verbatim>\<open>core/ledger\<close>) is not among the sources; the
  pool only calls the operations listed in the spec's section on external interfaces.
  The model keeps what each read returns (a value, not-found, or another store error) and,
  for each write, whether it fails. A successful write is seen by later reads; a failed
  write changes nothing.
\<close>

record Ledger =
  storedShardIDs :: "error + ShardID list"
  storedHash :: "ShardID \<Rightarrow> error + Uint256"
  storedMsg :: "Uint256 \<Rightarrow> error + CrossShardMsg"
  ParentLedger :: "(32 word \<Rightarrow> ShardID \<Rightarrow> error + ShardMsgs) option"
  saveMsgFault :: "Uint256 \<Rightarrow> error option"
  saveHashFault :: "ShardID \<Rightarrow> error option"
  saveIDsFault :: "error option"

definition GetAllShardIDs :: "Ledger \<Rightarrow> error + ShardID list" where
  "GetAllShardIDs lgr = storedShardIDs lgr"

definition SaveAllShardIDs :: "Ledger \<Rightarrow> ShardID list \<Rightarrow> error + Ledger" where
  "SaveAllShardIDs lgr ids =
     (case saveIDsFault lgr of
        Some e \<Rightarrow> Inl e
      | None \<Rightarrow> Inr (lgr\<lparr>storedShardIDs := Inr ids\<rparr>))"

definition GetCrossShardHash :: "Ledger \<Rightarrow> ShardID \<Rightarrow> error + Uint256" where
  "GetCrossShardHash lgr s = storedHash lgr s"

definition SaveCrossShardHash_lgr :: "Ledger \<Rightarrow> ShardID \<Rightarrow> Uint256 \<Rightarrow> error + Ledger" where
  "SaveCrossShardHash_lgr lgr s h =
     (case saveHashFault lgr s of
        Some e \<Rightarrow> Inl e
      | None \<Rightarrow> Inr (lgr\<lparr>storedHash := (storedHash lgr)(s := Inr h)\<rparr>))"

definition GetCrossShardMsgByHash :: "Ledger \<Rightarrow> Uint256 \<Rightarrow> error + CrossShardMsg" where
  "GetCrossShardMsgByHash lgr h = storedMsg lgr h"

definition SaveCrossShardMsgByHash :: "Ledger \<Rightarrow> Uint256 \<Rightarrow> CrossShardMsg \<Rightarrow> error + Ledger" where
  "SaveCrossShardMsgByHash lgr h msg =
     (case saveMsgFault lgr h of
        Some e \<Rightarrow> Inl e
      | None \<Rightarrow> Inr (lgr\<lparr>storedMsg := (storedMsg lgr)(h := Inr msg)\<rparr>))"

subsection \<open>Construction and the two wrappers\<close>

definition InitCrossShardPool :: "ShardID \<Rightarrow> 32 word \<Rightarrow> CrossShardPool" where
  "InitCrossShardPool shardID historyCap =
     \<lparr>PoolShardID = shardID, Shards = Map.empty, MaxBlockCap = historyCap,
      ShardInfo = Map.empty\<rparr>"

definition GetCrossShardHashByShardID :: "Ledger \<Rightarrow> ShardID \<Rightarrow> error + Uint256" where
  "GetCrossShardHashByShardID lgr shardID = GetCrossShardHash lgr shardID"

definition SaveCrossShardHash :: "Ledger \<Rightarrow> ShardID \<Rightarrow> Uint256 \<Rightarrow> error + Ledger" where
  "SaveCrossShardHash lgr shardID msgHash = SaveCrossShardHash_lgr lgr shardID msgHash"

subsection \<open>Recovery: InitShardInfo\<close>

text \<open>
  Both \<^verbatim>\<open>InitShardInfo\<close> and \<^verbatim>\<open>AddCrossShardInfo\<close> first make the inner map of
  the source shard when it is absent and then read it.
\<close>

definition ensureShard :: "CrossShardPool \<Rightarrow> 64 word \<Rightarrow> CrossShardPool" where
  "ensureShard pool sid =
     (case Shards pool sid of
        None \<Rightarrow> pool\<lparr>Shards := (Shards pool)(sid \<mapsto> Map.empty)\<rparr>
      | Some m \<Rightarrow> pool)"

definition shardMap :: "CrossShardPool \<Rightarrow> 64 word \<Rightarrow> (Uint256 \<rightharpoonup> CrossShardMsg)" where
  "shardMap pool sid = (case Shards pool sid of None \<Rightarrow> Map.empty | Some m \<Rightarrow> m)"

text \<open>
  The inner \<^verbatim>\<open>for { ... }\<close> of \<^verbatim>\<open>InitShardInfo\<close> has no bound of its own, so the
  model counts iterations: the result \<open>None\<close> means that \<open>n\<close> iterations were not
  enough. A returned pair holds the error (if any) and the pool as the loop left it; the
  pool is a process-wide value, so what was inserted before an error stays inserted.
  The \<^verbatim>\<open>continue\<close> taken when the key is already present starts the next iteration
  with the same \<open>msgHash\<close>.
\<close>

fun InitShardInfo_walk ::
  "nat \<Rightarrow> Ledger \<Rightarrow> ShardID \<Rightarrow> Uint256 \<Rightarrow> CrossShardPool \<Rightarrow> (error option \<times> CrossShardPool) option"
where
  "InitShardInfo_walk 0 lgr shardId msgHash pool = None"
| "InitShardInfo_walk (Suc n) lgr shardId msgHash pool =
     (case GetCrossShardMsgByHash lgr msgHash of
        Inl err \<Rightarrow>
          if err \<noteq> ErrNotFound
          then Some (Some (InitGetCrossShardMsgFailed msgHash err), pool)
          else Some (None, pool)
      | Inr msg \<Rightarrow>
          (let pool1 = ensureShard pool (ToUint64 shardId);
               m = shardMap pool1 (ToUint64 shardId)
           in case m (PreCrossShardMsgHash (MsgInfo msg)) of
                Some present \<Rightarrow> InitShardInfo_walk n lgr shardId msgHash pool1
              | None \<Rightarrow>
                  InitShardInfo_walk n lgr shardId (CrossShardMsgRoot (MsgInfo msg))
                    (pool1\<lparr>Shards := (Shards pool1)(ToUint64 shardId \<mapsto>
                        m(PreCrossShardMsgHash (MsgInfo msg) \<mapsto> msg))\<rparr>)))"

text \<open>
  The loop over the shard ids. The \<^verbatim>\<open>break\<close> taken when a shard has no persisted
  pointer leaves this loop, the innermost one around it.
\<close>

fun InitShardInfo_shards ::
  "nat \<Rightarrow> Ledger \<Rightarrow> ShardID list \<Rightarrow> CrossShardPool \<Rightarrow> (error option \<times> CrossShardPool) option"
where
  "InitShardInfo_shards n lgr [] pool = Some (None, pool)"
| "InitShardInfo_shards n lgr (shardId # rest) pool =
     (let pool1 = pool\<lparr>ShardInfo := (ShardInfo pool)(shardId \<mapsto> True)\<rparr>
      in case GetCrossShardHashByShardID lgr shardId of
           Inl err \<Rightarrow>
             if err \<noteq> ErrNotFound
             then Some (Some (InitGetCrossShardHashFailed shardId err), pool1)
             else Some (None, pool1)
         | Inr msgHash \<Rightarrow>
             (case InitShardInfo_walk n lgr shardId msgHash pool1 of
                None \<Rightarrow> None
              | Some (Some err, pool2) \<Rightarrow> Some (Some err, pool2)
              | Some (None, pool2) \<Rightarrow> InitShardInfo_shards n lgr rest pool2))"

text \<open>
  \<^verbatim>\<open>GetAllShardIDs\<close> answering not-found is not an error: the loop then runs over
  the empty slice returned beside it.
\<close>

definition InitShardInfo ::
  "nat \<Rightarrow> Ledger \<Rightarrow> CrossShardPool \<Rightarrow> (error option \<times> CrossShardPool) option"
where
  "InitShardInfo n lgr pool =
     (case GetAllShardIDs lgr of
        Inl err \<Rightarrow>
          if err \<noteq> ErrNotFound then Some (Some (GetAllShardIDsFailed err), pool)
          else InitShardInfo_shards n lgr [] pool
      | Inr shardIds \<Rightarrow> InitShardInfo_shards n lgr shardIds pool)"

subsection \<open>Ingestion: AddShardInfo and AddCrossShardInfo\<close>

text \<open>
  \<^verbatim>\<open>AddShardInfo\<close> collects the keys of \<^verbatim>\<open>ShardInfo\<close> by ranging over the map, in an
  order Go leaves open: \<open>keys\<close> is that enumeration. A failed save is logged only.
\<close>

definition AddShardInfo ::
  "((ShardID \<rightharpoonup> bool) \<Rightarrow> ShardID list) \<Rightarrow> Ledger \<Rightarrow> CrossShardPool \<Rightarrow> ShardID
     \<Rightarrow> Ledger \<times> CrossShardPool"
where
  "AddShardInfo keys lgr pool shardID =
     (case ShardInfo pool shardID of
        Some present \<Rightarrow> (lgr, pool)
      | None \<Rightarrow>
          (let pool1 = pool\<lparr>ShardInfo := (ShardInfo pool)(shardID \<mapsto> True)\<rparr>;
               shardIds = keys (ShardInfo pool1)
           in case SaveAllShardIDs lgr shardIds of
                Inl err \<Rightarrow> (lgr, pool1)
              | Inr lgr1 \<Rightarrow> (lgr1, pool1)))"

text \<open>
  \<^verbatim>\<open>AddCrossShardInfo\<close> returns the error (if any) with the ledger and the pool as it
  left them. The message is stored in the inner map before it is persisted.
\<close>

definition AddCrossShardInfo ::
  "((ShardID \<rightharpoonup> bool) \<Rightarrow> ShardID list) \<Rightarrow> Ledger \<Rightarrow> CrossShardPool \<Rightarrow> CrossShardMsg
     \<Rightarrow> error option \<times> Ledger \<times> CrossShardPool"
where
  "AddCrossShardInfo keys lgr pool crossShardMsg =
     (let info = MsgInfo crossShardMsg;
          fromShardID = ToUint64 (FromShardID info);
          pool1 = ensureShard pool fromShardID;
          m = shardMap pool1 fromShardID
      in case m (PreCrossShardMsgHash info) of
           Some present \<Rightarrow> (None, lgr, pool1)
         | None \<Rightarrow>
             (let pool2 = pool1\<lparr>Shards := (Shards pool1)(fromShardID \<mapsto>
                            m(PreCrossShardMsgHash info \<mapsto> crossShardMsg))\<rparr>
              in case SaveCrossShardMsgByHash lgr (PreCrossShardMsgHash info) crossShardMsg of
                   Inl err \<Rightarrow>
                     (Some (SaveCrossShardMsgFailed (FromShardID info)
                              (PreCrossShardMsgHash info) err), lgr, pool2)
                 | Inr lgr1 \<Rightarrow>
                     (case GetCrossShardHashByShardID lgr1 (FromShardID info) of
                        Inl err \<Rightarrow>
                          if err \<noteq> ErrNotFound
                          then (Some (AddGetCrossShardHashFailed (FromShardID info) err),
                                lgr1, pool2)
                          else
                            (case SaveCrossShardHash lgr1 (FromShardID info)
                                    (PreCrossShardMsgHash info) of
                               Inl err2 \<Rightarrow>
                                 (Some (AddSaveCrossShardHashFailed (FromShardID info) err2),
                                  lgr1, pool2)
                             | Inr lgr2 \<Rightarrow>
                                 (None, AddShardInfo keys lgr2 pool2 (FromShardID info)))
                      | Inr h \<Rightarrow> (None, AddShardInfo keys lgr1 pool2 (FromShardID info)))))"

text \<open>A sequence of ingestions, each on the state the one before left, errors or not.\<close>

fun AddCrossShardInfo_all ::
  "((ShardID \<rightharpoonup> bool) \<Rightarrow> ShardID list) \<Rightarrow> Ledger \<Rightarrow> CrossShardPool \<Rightarrow> CrossShardMsg list
     \<Rightarrow> Ledger \<times> CrossShardPool"
where
  "AddCrossShardInfo_all keys lgr pool [] = (lgr, pool)"
| "AddCrossShardInfo_all keys lgr pool (msg # msgs) =
     (case AddCrossShardInfo keys lgr pool msg of
        (err, lgr1, pool1) \<Rightarrow> AddCrossShardInfo_all keys lgr1 pool1 msgs)"

subsection \<open>Collection: GetCrossShardTxs\<close>

text \<open>
  What \<^verbatim>\<open>GetCrossShardTxs\<close> uses and the sources do not hold is taken as a parameter:
  the two predicates of \<^verbatim>\<open>common.ShardID\<close>, the checked constructor
  \<^verbatim>\<open>common.NewShardID\<close> and the transaction builder
  \<^verbatim>\<open>crossshard.NewCrossShardTxMsg\<close>, here already applied to the signer, the gas
  price and the gas limit, which are the same at every call.
\<close>

record 'tx Env =
  IsRootShard :: "ShardID \<Rightarrow> bool"
  ParentID :: "ShardID \<Rightarrow> ShardID"
  NewShardID :: "64 word \<Rightarrow> error + ShardID"
  NewCrossShardTxMsg :: "32 word \<Rightarrow> ShardID \<Rightarrow> ShardMsgs \<Rightarrow> error + 'tx"

text \<open>
  The chain walk of one shard: look the current hash up in the inner map first, then in
  the ledger; a found message is appended and its \<^verbatim>\<open>CrossShardMsgRoot\<close> becomes the
  current hash. The loop has no bound, so iterations are counted as in the recovery walk.
\<close>

fun GetCrossShardTxs_walk ::
  "nat \<Rightarrow> Ledger \<Rightarrow> (Uint256 \<rightharpoonup> CrossShardMsg) \<Rightarrow> Uint256 \<Rightarrow> CrossShardMsg list
     \<Rightarrow> (error + CrossShardMsg list) option"
where
  "GetCrossShardTxs_walk 0 lgr shardMsgs msgHash crossShardMsgs = None"
| "GetCrossShardTxs_walk (Suc n) lgr shardMsgs msgHash crossShardMsgs =
     (case shardMsgs msgHash of
        None \<Rightarrow>
          (case GetCrossShardMsgByHash lgr msgHash of
             Inl err \<Rightarrow>
               if err \<noteq> ErrNotFound then Some (Inl (GetCrossShardMsgByHashFailed msgHash err))
               else Some (Inr crossShardMsgs)
           | Inr msg \<Rightarrow>
               GetCrossShardTxs_walk n lgr shardMsgs (CrossShardMsgRoot (MsgInfo msg))
                 (crossShardMsgs @ [msg]))
      | Some shardMsg \<Rightarrow>
          GetCrossShardTxs_walk n lgr shardMsgs (CrossShardMsgRoot (MsgInfo shardMsg))
            (crossShardMsgs @ [shardMsg]))"

text \<open>Wrapping the collected messages; a builder failure ends the batch where it is.\<close>

fun GetCrossShardTxs_build ::
  "'tx Env \<Rightarrow> ShardID \<Rightarrow> CrossShardMsg list \<Rightarrow> 'tx CrossShardTxInfos list
     \<Rightarrow> 'tx CrossShardTxInfos list"
where
  "GetCrossShardTxs_build env fromShardID [] crossShardInfo = crossShardInfo"
| "GetCrossShardTxs_build env fromShardID (msg # msgs) crossShardInfo =
     (case NewCrossShardTxMsg env (MsgHeight (MsgInfo msg)) fromShardID (ShardMsg msg) of
        Inl err \<Rightarrow> crossShardInfo
      | Inr tx \<Rightarrow>
          GetCrossShardTxs_build env fromShardID msgs
            (crossShardInfo @ [\<lparr>TxShardMsg = MsgInfo msg, Tx = tx\<rparr>]))"

text \<open>
  The loop over \<^verbatim>\<open>pool.Shards\<close>. Go ranges over a map in an unspecified order:
  \<open>order\<close> is the order of this run, a list of the keys. A pointer lookup that answers
  not-found leaves the zero hash as the start of the walk.
\<close>

fun GetCrossShardTxs_shards ::
  "nat \<Rightarrow> 'tx Env \<Rightarrow> Ledger \<Rightarrow> CrossShardPool \<Rightarrow> ShardID \<Rightarrow> 64 word list
     \<Rightarrow> (64 word \<rightharpoonup> 'tx CrossShardTxInfos list)
     \<Rightarrow> (error + (64 word \<rightharpoonup> 'tx CrossShardTxInfos list)) option"
where
  "GetCrossShardTxs_shards n env lgr pool fromShardID [] crossShardMapInfos =
     Some (Inr crossShardMapInfos)"
| "GetCrossShardTxs_shards n env lgr pool fromShardID (shardID # rest) crossShardMapInfos =
     (case Shards pool shardID of
        None \<Rightarrow> GetCrossShardTxs_shards n env lgr pool fromShardID rest crossShardMapInfos
      | Some shardMsgs \<Rightarrow>
          (case NewShardID env shardID of
             Inl err \<Rightarrow>
               GetCrossShardTxs_shards n env lgr pool fromShardID rest crossShardMapInfos
           | Inr sid \<Rightarrow>
               (case (case GetCrossShardHashByShardID lgr sid of
                        Inl err \<Rightarrow> if err \<noteq> ErrNotFound then None else Some UINT256_EMPTY
                      | Inr h \<Rightarrow> Some h) of
                  None \<Rightarrow>
                    GetCrossShardTxs_shards n env lgr pool fromShardID rest crossShardMapInfos
                | Some msgHash \<Rightarrow>
                    (case GetCrossShardTxs_walk n lgr shardMsgs msgHash [] of
                       None \<Rightarrow> None
                     | Some (Inl err) \<Rightarrow> Some (Inl err)
                     | Some (Inr crossShardMsgs) \<Rightarrow>
                         GetCrossShardTxs_shards n env lgr pool fromShardID rest
                           (crossShardMapInfos(shardID \<mapsto>
                              GetCrossShardTxs_build env fromShardID crossShardMsgs []))))))"

text \<open>
  The whole call. The nil map of the two early returns is the empty map here: ranging
  over either does nothing. \<open>parentblkNum - 1\<close> is \<^verbatim>\<open>uint32\<close> arithmetic.
\<close>

definition GetCrossShardTxs ::
  "nat \<Rightarrow> 'tx Env \<Rightarrow> Ledger \<Rightarrow> CrossShardPool \<Rightarrow> ShardID \<Rightarrow> 32 word \<Rightarrow> 64 word list
     \<Rightarrow> (error + (64 word \<rightharpoonup> 'tx CrossShardTxInfos list)) option"
where
  "GetCrossShardTxs n env lgr pool fromShardID parentblkNum order =
     (if \<not> IsRootShard env fromShardID then
        (case ParentLedger lgr of
           None \<Rightarrow> Some (Inr Map.empty)
         | Some GetShardMsgsInBlock \<Rightarrow>
             (case GetShardMsgsInBlock (parentblkNum - 1) fromShardID of
                Inl err \<Rightarrow>
                  if err \<noteq> ErrNotFound
                  then Some (Inl (GetShardMsgsInBlockFailed parentblkNum fromShardID err))
                  else Some (Inr Map.empty)
              | Inr shardMsg \<Rightarrow>
                  (case NewCrossShardTxMsg env parentblkNum fromShardID shardMsg of
                     Inl err \<Rightarrow> Some (Inl (NewCrossShardTxMsgFailed parentblkNum err))
                   | Inr tx \<Rightarrow>
                       GetCrossShardTxs_shards n env lgr pool fromShardID order
                         [ToUint64 (ParentID env fromShardID) \<mapsto>
                            [\<lparr>TxShardMsg = \<lparr>FromShardID = ParentID env fromShardID,
                                 MsgHeight = parentblkNum,
                                 PreCrossShardMsgHash = UINT256_EMPTY,
                                 CrossShardMsgRoot = UINT256_EMPTY\<rparr>,
                               Tx = tx\<rparr>]])))
      else GetCrossShardTxs_shards n env lgr pool fromShardID order Map.empty)"

subsection \<open>Eviction: DelCrossShardTxs\<close>

text \<open>
  The inner loop over the transactions of one shard. The flag says whether the loop hit
  the \<^verbatim>\<open>return nil\<close> for a shard the pool does not hold. The result of
  \<^verbatim>\<open>SaveCrossShardHash\<close> is dropped, so a failed save leaves the ledger as it was.
  The \<^verbatim>\<open>ShardMsg\<close> pointer of a transaction is taken to be set, as it is in every
  transaction \<^verbatim>\<open>GetCrossShardTxs\<close> builds.
\<close>

fun DelCrossShardTxs_txs ::
  "Ledger \<Rightarrow> CrossShardPool \<Rightarrow> 64 word \<Rightarrow> 'tx CrossShardTxInfos list
     \<Rightarrow> bool \<times> Ledger \<times> CrossShardPool"
where
  "DelCrossShardTxs_txs lgr pool shardID [] = (False, lgr, pool)"
| "DelCrossShardTxs_txs lgr pool shardID (shardTx # rest) =
     (case Shards pool shardID of
        None \<Rightarrow> (True, lgr, pool)
      | Some crossShardTxInfos \<Rightarrow>
          DelCrossShardTxs_txs
            (case SaveCrossShardHash lgr (NewShardIDUnchecked shardID)
                    (PreCrossShardMsgHash (TxShardMsg shardTx)) of
               Inl err \<Rightarrow> lgr
             | Inr lgr1 \<Rightarrow> lgr1)
            (pool\<lparr>Shards := (Shards pool)(shardID \<mapsto>
               crossShardTxInfos(CrossShardMsgRoot (TxShardMsg shardTx) := None))\<rparr>)
            shardID rest)"

text \<open>
  The outer loop ranges over the argument map; the list gives its entries in the order
  of this run. The call always returns a nil error.
\<close>

fun DelCrossShardTxs ::
  "Ledger \<Rightarrow> CrossShardPool \<Rightarrow> (64 word \<times> 'tx CrossShardTxInfos list) list
     \<Rightarrow> error option \<times> Ledger \<times> CrossShardPool"
where
  "DelCrossShardTxs lgr pool [] = (None, lgr, pool)"
| "DelCrossShardTxs lgr pool ((shardID, shardTxs) # rest) =
     (case DelCrossShardTxs_txs lgr pool shardID shardTxs of
        (True, lgr1, pool1) \<Rightarrow> (None, lgr1, pool1)
      | (False, lgr1, pool1) \<Rightarrow> DelCrossShardTxs lgr1 pool1 rest)"

section \<open>Decoding shard-management events (package shardstates)\<close>

text \<open>
  The three event tags of the gas events, the deserializers of \<^verbatim>\<open>DepositGasEvent\<close>,
  \<^verbatim>\<open>WithdrawGasReqEvent\<close> and \<^verbatim>\<open>CommonShardReq\<close>, and \<^verbatim>\<open>json.Unmarshal\<close> are
  declared outside the sources and are parameters here. A deserializer answers the
  decoded value or the text of its error.
\<close>

record EventTags =
  EVENT_SHARD_GAS_DEPOSIT :: "32 word"
  EVENT_SHARD_GAS_WITHDRAW_REQ :: "32 word"
  EVENT_SHARD_GAS_WITHDRAW_DONE :: "32 word"

datatype ('d, 'w) ShardMgmtEvent = DepositGasEvent 'd | WithdrawGasReqEvent 'w

datatype DecodeError =
    UnmarshalGasDepositEvt string
  | UnmarshalGasWithdrawReq string
  | UnknownRemoteEventType "32 word"
  | FailedToUnmarshalTxs string
  | FailedToUnmarshalReqTx string "8 word list"

text \<open>
  A Go \<^verbatim>\<open>switch\<close> takes the first case that matches. The result \<open>Inr None\<close> is the
  pair \<^verbatim>\<open>(nil, nil)\<close>.
\<close>

definition DecodeShardEvent ::
  "EventTags \<Rightarrow> (8 word list \<Rightarrow> string + 'd) \<Rightarrow> (8 word list \<Rightarrow> string + 'w)
     \<Rightarrow> 32 word \<Rightarrow> 8 word list \<Rightarrow> DecodeError + ('d, 'w) ShardMgmtEvent option"
where
  "DecodeShardEvent tags desDeposit desWithdraw evtType evtPayload =
     (if evtType = EVENT_SHARD_GAS_DEPOSIT tags then
        (case desDeposit evtPayload of
           Inl err \<Rightarrow> Inl (UnmarshalGasDepositEvt err)
         | Inr evt \<Rightarrow> Inr (Some (DepositGasEvent evt)))
      else if evtType = EVENT_SHARD_GAS_WITHDRAW_REQ tags then
        (case desWithdraw evtPayload of
           Inl err \<Rightarrow> Inl (UnmarshalGasWithdrawReq err)
         | Inr evt \<Rightarrow> Inr (Some (WithdrawGasReqEvent evt)))
      else if evtType = EVENT_SHARD_GAS_WITHDRAW_DONE tags then Inr None
      else Inl (UnknownRemoteEventType evtType))"

fun DecodeShardCommonReqs_loop ::
  "(8 word list \<Rightarrow> string + 'req) \<Rightarrow> 8 word list list \<Rightarrow> 'req list \<Rightarrow> DecodeError + 'req list"
where
  "DecodeShardCommonReqs_loop des [] reqs = Inr reqs"
| "DecodeShardCommonReqs_loop des (tx # txs) reqs =
     (case des tx of
        Inl err \<Rightarrow> Inl (FailedToUnmarshalReqTx err tx)
      | Inr req \<Rightarrow> DecodeShardCommonReqs_loop des txs (reqs @ [req]))"

definition DecodeShardCommonReqs ::
  "(8 word list \<Rightarrow> string + 8 word list list) \<Rightarrow> (8 word list \<Rightarrow> string + 'req) \<Rightarrow> 8 word list
     \<Rightarrow> DecodeError + 'req list"
where
  "DecodeShardCommonReqs unmarshal des payload =
     (case unmarshal payload of
        Inl err \<Rightarrow> Inl (FailedToUnmarshalTxs err)
      | Inr txs \<Rightarrow> DecodeShardCommonReqs_loop des txs [])"

section \<open>Concrete states used to run the model\<close>

text \<open>
  Two messages of shard 1 that follow each other (the root of the first is the hash the
  second names as its predecessor), an empty ledger on which every write succeeds, an
  enumeration of the known shards among four candidates, and the externals: shard 0 is
  the root and the parent of every shard, every id is accepted, and the builder wraps the
  payload as it is.
\<close>

definition ex_msgA :: CrossShardMsg where
  "ex_msgA = \<lparr>MsgInfo = \<lparr>FromShardID = 1, MsgHeight = 10, PreCrossShardMsgHash = 1,
                 CrossShardMsgRoot = 2\<rparr>, ShardMsg = [1]\<rparr>"

definition ex_msgB :: CrossShardMsg where
  "ex_msgB = \<lparr>MsgInfo = \<lparr>FromShardID = 1, MsgHeight = 11, PreCrossShardMsgHash = 2,
                 CrossShardMsgRoot = 3\<rparr>, ShardMsg = [2]\<rparr>"

definition ex_ledger :: Ledger where
  "ex_ledger = \<lparr>storedShardIDs = Inl ErrNotFound, storedHash = (\<lambda>s. Inl ErrNotFound),
     storedMsg = (\<lambda>h. Inl ErrNotFound), ParentLedger = None, saveMsgFault = (\<lambda>h. None),
     saveHashFault = (\<lambda>s. None), saveIDsFault = None\<rparr>"

definition ex_keys :: "(ShardID \<rightharpoonup> bool) \<Rightarrow> ShardID list" where
  "ex_keys m = filter (\<lambda>k. m k \<noteq> None) [0, 1, 2, 3]"

definition ex_env :: "ShardMsgs Env" where
  "ex_env = \<lparr>IsRootShard = (\<lambda>s. s = 0), ParentID = (\<lambda>s. 0), NewShardID = Inr,
     NewCrossShardTxMsg = (\<lambda>height fromShardID shardMsg. Inr shardMsg)\<rparr>"

text \<open>A pool that holds the first message, and one that holds both.\<close>

definition ex_poolA :: CrossShardPool where
  "ex_poolA = \<lparr>PoolShardID = 0, Shards = [1 \<mapsto> [1 \<mapsto> ex_msgA]], MaxBlockCap = 100,
     ShardInfo = [1 \<mapsto> True]\<rparr>"

definition ex_poolAB :: CrossShardPool where
  "ex_poolAB = \<lparr>PoolShardID = 0, Shards = [1 \<mapsto> [1 \<mapsto> ex_msgA, 2 \<mapsto> ex_msgB]],
     MaxBlockCap = 100, ShardInfo = [1 \<mapsto> True]\<rparr>"

text \<open>The gas event tags as three distinct numbers, and a deserializer that accepts
  exactly the non-empty byte strings.\<close>

definition ex_tags :: EventTags where
  "ex_tags = \<lparr>EVENT_SHARD_GAS_DEPOSIT = 128, EVENT_SHARD_GAS_WITHDRAW_REQ = 129,
     EVENT_SHARD_GAS_WITHDRAW_DONE = 130\<rparr>"

definition ex_des :: "8 word list \<Rightarrow> string + 8 word list" where
  "ex_des tx = (if tx = [] then Inl ''EOF'' else Inr tx)"

text \<open>Two containers of three inner elements; the second element of the first is empty.\<close>

definition ex_inner_bad :: "8 word list list" where
  "ex_inner_bad = [1] # [] # [2] # []"

definition ex_inner_good :: "8 word list list" where
  "ex_inner_good = [1] # [2] # [3] # []"

text \<open>
  Two messages of shard 2, the transactions that wrap the messages, and a pool that
  holds the messages of both shards.
\<close>

definition ex_msgC :: CrossShardMsg where
  "ex_msgC = \<lparr>MsgInfo = \<lparr>FromShardID = 2, MsgHeight = 5, PreCrossShardMsgHash = 8,
                 CrossShardMsgRoot = 9\<rparr>, ShardMsg = [3]\<rparr>"

definition ex_msgD :: CrossShardMsg where
  "ex_msgD = \<lparr>MsgInfo = \<lparr>FromShardID = 2, MsgHeight = 6, PreCrossShardMsgHash = 9,
                 CrossShardMsgRoot = 10\<rparr>, ShardMsg = [4]\<rparr>"

definition ex_txA :: "ShardMsgs CrossShardTxInfos" where
  "ex_txA = \<lparr>TxShardMsg = MsgInfo ex_msgA, Tx = ShardMsg ex_msgA\<rparr>"

definition ex_txB :: "ShardMsgs CrossShardTxInfos" where
  "ex_txB = \<lparr>TxShardMsg = MsgInfo ex_msgB, Tx = ShardMsg ex_msgB\<rparr>"

definition ex_txC :: "ShardMsgs CrossShardTxInfos" where
  "ex_txC = \<lparr>TxShardMsg = MsgInfo ex_msgC, Tx = ShardMsg ex_msgC\<rparr>"

definition ex_pool2 :: CrossShardPool where
  "ex_pool2 = \<lparr>PoolShardID = 0,
     Shards = [1 \<mapsto> [1 \<mapsto> ex_msgA, 2 \<mapsto> ex_msgB], 2 \<mapsto> [8 \<mapsto> ex_msgC, 9 \<mapsto> ex_msgD]],
     MaxBlockCap = 100, ShardInfo = [1 \<mapsto> True, 2 \<mapsto> True]\<rparr>"

text \<open>
  The ledger after the two messages of shard 1 were ingested, the same ledger with a
  parent that has nothing recorded, and a ledger on which no message can be persisted.
\<close>

definition ex_ledgerAB :: Ledger where
  "ex_ledgerAB = \<lparr>storedShardIDs = Inr [1],
     storedHash = (\<lambda>s. Inl ErrNotFound)(1 := Inr 1),
     storedMsg = (\<lambda>h. Inl ErrNotFound)(1 := Inr ex_msgA, 2 := Inr ex_msgB),
     ParentLedger = None, saveMsgFault = (\<lambda>h. None),
     saveHashFault = (\<lambda>s. None), saveIDsFault = None\<rparr>"

definition ex_ledgerAB_parent :: Ledger where
  "ex_ledgerAB_parent = ex_ledgerAB\<lparr>ParentLedger := Some (\<lambda>height shardID. Inl ErrNotFound)\<rparr>"

definition ex_ledger_failing :: Ledger where
  "ex_ledger_failing = ex_ledger\<lparr>saveMsgFault := (\<lambda>h. Some ErrStore)\<rparr>"

text \<open>The empty pool with the first message in the map of shard 1 and no shard marked.\<close>

definition ex_pool_unsaved :: CrossShardPool where
  "ex_pool_unsaved = (InitCrossShardPool 0 100)\<lparr>Shards := [1 \<mapsto> [1 \<mapsto> ex_msgA]]\<rparr>"

text \<open>
  A message of shard 1 whose root is the hash the first message names as predecessor, a
  ledger that holds the first message and this one (both can be ingested, their hashes
  differ), and a ledger that lists shard 3, which has no pointer, ahead of shard 1.
\<close>

definition ex_msgB_back :: CrossShardMsg where
  "ex_msgB_back = \<lparr>MsgInfo = \<lparr>FromShardID = 1, MsgHeight = 11, PreCrossShardMsgHash = 2,
                 CrossShardMsgRoot = 1\<rparr>, ShardMsg = [2]\<rparr>"

definition ex_ledger_cycle :: Ledger where
  "ex_ledger_cycle = ex_ledgerAB\<lparr>storedMsg :=
     (\<lambda>h. Inl ErrNotFound)(1 := Inr ex_msgA, 2 := Inr ex_msgB_back)\<rparr>"

definition ex_ledger_gap :: Ledger where
  "ex_ledger_gap = ex_ledgerAB\<lparr>storedShardIDs := Inr [3, 1]\<rparr>"

section \<open>The recovery walk as the spec words it, and the chain it is compared with\<close>

text \<open>
  Follows the spec's words (section 4.2) and not the source, for comparison with
  \<open>InitShardInfo_walk\<close>: fetch the message at the current hash, insert it keyed by its
  \<^verbatim>\<open>PreviousMessageHash\<close>, then set the current hash to that message's
  \<^verbatim>\<open>PreviousMessageHash\<close>, until a lookup answers not-found; a hash already in the
  map of the shard ends the walk of that shard without error.
\<close>

fun spec_backward_walk ::
  "nat \<Rightarrow> Ledger \<Rightarrow> ShardID \<Rightarrow> Uint256 \<Rightarrow> CrossShardPool \<Rightarrow> (error option \<times> CrossShardPool) option"
where
  "spec_backward_walk 0 lgr shardId msgHash pool = None"
| "spec_backward_walk (Suc n) lgr shardId msgHash pool =
     (case GetCrossShardMsgByHash lgr msgHash of
        Inl err \<Rightarrow>
          if err \<noteq> ErrNotFound
          then Some (Some (InitGetCrossShardMsgFailed msgHash err), pool)
          else Some (None, pool)
      | Inr msg \<Rightarrow>
          (let pool1 = ensureShard pool (ToUint64 shardId);
               m = shardMap pool1 (ToUint64 shardId)
           in case m (PreCrossShardMsgHash (MsgInfo msg)) of
                Some present \<Rightarrow> Some (None, pool1)
              | None \<Rightarrow>
                  spec_backward_walk n lgr shardId (PreCrossShardMsgHash (MsgInfo msg))
                    (pool1\<lparr>Shards := (Shards pool1)(ToUint64 shardId \<mapsto>
                        m(PreCrossShardMsgHash (MsgInfo msg) \<mapsto> msg))\<rparr>)))"

text \<open>
  The messages reached from a hash by following \<^verbatim>\<open>CrossShardMsgRoot\<close> in the ledger,
  up to the first hash the ledger does not hold, and the map entries they make.
\<close>

fun rootChain :: "Ledger \<Rightarrow> Uint256 \<Rightarrow> CrossShardMsg list \<Rightarrow> bool" where
  "rootChain lgr h [] = (GetCrossShardMsgByHash lgr h = Inl ErrNotFound)"
| "rootChain lgr h (msg # msgs) =
     (GetCrossShardMsgByHash lgr h = Inr msg \<and>
      rootChain lgr (CrossShardMsgRoot (MsgInfo msg)) msgs)"

definition entriesOf :: "CrossShardMsg list \<Rightarrow> (Uint256 \<rightharpoonup> CrossShardMsg)" where
  "entriesOf msgs = map_of (map (\<lambda>msg. (PreCrossShardMsgHash (MsgInfo msg), msg)) msgs)"

text \<open>The entry of a shard's map after a walk, when the walk returned.\<close>

definition entryAfter ::
  "(error option \<times> CrossShardPool) option \<Rightarrow> 64 word \<Rightarrow> Uint256 \<Rightarrow> CrossShardMsg option option"
where
  "entryAfter r sid h = (case r of None \<Rightarrow> None | Some (err, pool) \<Rightarrow> Some (shardMap pool sid h))"

section \<open>Properties\<close>

subsection \<open>Decoding\<close>

lemma DecodeShardCommonReqs_loop_all_parse:
  "\<forall>tx\<in>set txs. \<not> isl (des tx) \<Longrightarrow>
   DecodeShardCommonReqs_loop des txs reqs = Inr (reqs @ map (\<lambda>tx. projr (des tx)) txs)"
  by (induction txs arbitrary: reqs) (auto split: sum.splits)

lemma DecodeShardCommonReqs_loop_first_bad:
  "\<forall>tx\<in>set good. \<not> isl (des tx) \<Longrightarrow> des bad = Inl err \<Longrightarrow>
   DecodeShardCommonReqs_loop des (good @ bad # rest) reqs =
     Inl (FailedToUnmarshalReqTx err bad)"
  by (induction good arbitrary: reqs) (auto split: sum.splits)

text \<open>
  Claim C9. When the container unwraps to the inner elements \<open>good @ bad # rest\<close>, where
  every element of \<open>good\<close> parses and \<open>bad\<close> does not, \<^verbatim>\<open>DecodeShardCommonReqs\<close>
  fails with the error that carries the parse error and the raw bytes of \<open>bad\<close>, and so
  returns no list at all, whatever \<open>rest\<close> holds. When every inner element parses, it
  returns the decoded requests, one per element, in the order of the container.
\<close>

theorem DecodeShardCommonReqs_all_or_nothing:
  "(unmarshal payload = Inr (good @ bad # rest) \<and> (\<forall>tx\<in>set good. \<not> isl (des tx)) \<and>
      des bad = Inl err
      \<longrightarrow> DecodeShardCommonReqs unmarshal des payload = Inl (FailedToUnmarshalReqTx err bad))
   \<and> (unmarshal payload = Inr txs \<and> (\<forall>tx\<in>set txs. \<not> isl (des tx))
      \<longrightarrow> DecodeShardCommonReqs unmarshal des payload =
            Inr (map (\<lambda>tx. projr (des tx)) txs))"
  by (simp add: DecodeShardCommonReqs_def DecodeShardCommonReqs_loop_all_parse
      DecodeShardCommonReqs_loop_first_bad)

theorem DecodeShardCommonReqs_all_or_nothing_witness:
  "DecodeShardCommonReqs (\<lambda>p. Inr ex_inner_bad) ex_des [7] =
     Inl (FailedToUnmarshalReqTx ''EOF'' [])
   \<and> DecodeShardCommonReqs (\<lambda>p. Inr ex_inner_good) ex_des [7] = Inr ex_inner_good"
proof -
  have bad: "DecodeShardCommonReqs (\<lambda>p. Inr ex_inner_bad) ex_des [7] =
      Inl (FailedToUnmarshalReqTx ''EOF'' [])"
    using DecodeShardCommonReqs_all_or_nothing
      [of "\<lambda>p. Inr ex_inner_bad" "[7]" "[1] # []" "[]" "[2] # []" ex_des "''EOF''" "[]"]
    by (simp add: ex_des_def ex_inner_bad_def)
  have good: "DecodeShardCommonReqs (\<lambda>p. Inr ex_inner_good) ex_des [7] = Inr ex_inner_good"
    using DecodeShardCommonReqs_all_or_nothing
      [of "\<lambda>p. Inr ex_inner_good" "[7]" "[]" "[]" "[]" ex_des "''EOF''" ex_inner_good]
    by (simp add: ex_des_def ex_inner_good_def)
  from bad good show ?thesis by simp
qed

text \<open>
  Claim C10. A tag that is none of the three the switch names makes
  \<^verbatim>\<open>DecodeShardEvent\<close> fail with the unknown-type error, which carries the tag. The
  tag of the withdraw-done event gives the result \<^verbatim>\<open>(nil, nil)\<close> for every payload;
  Go rejects a switch that names one constant twice, so the three tags differ.
\<close>

theorem DecodeShardEvent_unknown_and_withdraw_done:
  "(evtType \<noteq> EVENT_SHARD_GAS_DEPOSIT tags \<and> evtType \<noteq> EVENT_SHARD_GAS_WITHDRAW_REQ tags \<and>
      evtType \<noteq> EVENT_SHARD_GAS_WITHDRAW_DONE tags
      \<longrightarrow> DecodeShardEvent tags desDeposit desWithdraw evtType evtPayload =
            Inl (UnknownRemoteEventType evtType))
   \<and> (EVENT_SHARD_GAS_WITHDRAW_DONE tags \<noteq> EVENT_SHARD_GAS_DEPOSIT tags \<and>
      EVENT_SHARD_GAS_WITHDRAW_DONE tags \<noteq> EVENT_SHARD_GAS_WITHDRAW_REQ tags
      \<longrightarrow> DecodeShardEvent tags desDeposit desWithdraw (EVENT_SHARD_GAS_WITHDRAW_DONE tags)
              evtPayload = Inr None)"
  by (simp add: DecodeShardEvent_def)

theorem DecodeShardEvent_unknown_and_withdraw_done_witness:
  "DecodeShardEvent ex_tags ex_des ex_des 9999 [1, 2] = Inl (UnknownRemoteEventType 9999)
   \<and> DecodeShardEvent ex_tags ex_des ex_des 130 [1, 2] = Inr None"
  using DecodeShardEvent_unknown_and_withdraw_done [of 9999 ex_tags ex_des ex_des "[1, 2]"]
  by (simp add: ex_tags_def)

subsection \<open>Eviction\<close>

lemma DelCrossShardTxs_txs_keeps_absent:
  "Shards (snd (snd (DelCrossShardTxs_txs lgr pool sid txs))) k = None \<longleftrightarrow> Shards pool k = None"
  by (induction txs arbitrary: lgr pool) (auto split: option.splits)

lemma DelCrossShardTxs_txs_absent:
  "Shards pool sid = None \<Longrightarrow> txs \<noteq> [] \<Longrightarrow>
   DelCrossShardTxs_txs lgr pool sid txs = (True, lgr, pool)"
  by (cases txs) auto

lemma DelCrossShardTxs_no_error: "fst (DelCrossShardTxs lgr pool kvs) = None"
  by (induction kvs arbitrary: lgr pool) (auto split: prod.splits bool.splits)

text \<open>
  Claim C8. The argument map is ranged over as \<open>before @ (shardID, shardTxs) # rest\<close>.
  If the pool has no entry for \<open>shardID\<close> and that shard comes with at least one
  transaction (the test sits inside the loop over the transactions), the call returns no
  error and leaves the ledger and the pool exactly as the entries \<open>before\<close> alone leave
  them: the transactions of \<open>shardID\<close> and every entry of \<open>rest\<close> are skipped, so
  nothing of theirs is removed and no pointer of theirs is written.
\<close>

theorem DelCrossShardTxs_early_return:
  "Shards pool shardID = None \<Longrightarrow> shardTxs \<noteq> [] \<Longrightarrow>
   DelCrossShardTxs lgr pool (before @ (shardID, shardTxs) # rest) =
     DelCrossShardTxs lgr pool before
   \<and> fst (DelCrossShardTxs lgr pool (before @ (shardID, shardTxs) # rest)) = None"
proof (induction before arbitrary: lgr pool)
  case Nil
  then show ?case by (simp add: DelCrossShardTxs_txs_absent)
next
  case (Cons kv before)
  obtain k txs where kv: "kv = (k, txs)" by (cases kv)
  obtain b lgr1 pool1 where r: "DelCrossShardTxs_txs lgr pool k txs = (b, lgr1, pool1)"
    by (cases "DelCrossShardTxs_txs lgr pool k txs")
  have "Shards pool1 shardID = None"
    using DelCrossShardTxs_txs_keeps_absent [of lgr pool k txs shardID] r Cons.prems(1) by simp
  from Cons.IH [OF this Cons.prems(2)] show ?case
    by (cases b) (simp_all add: kv r DelCrossShardTxs_no_error)
qed

text \<open>
  On a pool that holds shards 1 and 2 and not shard 7: the entry of shard 2 that comes
  after shard 7 is not processed, so the message its transaction would remove is still
  there and shard 2 still has no pointer.
\<close>

theorem DelCrossShardTxs_early_return_witness:
  "DelCrossShardTxs ex_ledger ex_pool2 [(1, [ex_txA]), (7, [ex_txC]), (2, [ex_txC])] =
     DelCrossShardTxs ex_ledger ex_pool2 [(1, [ex_txA])]
   \<and> shardMap (snd (snd (DelCrossShardTxs ex_ledger ex_pool2
         [(1, [ex_txA]), (7, [ex_txC]), (2, [ex_txC])]))) 2 9 = Some ex_msgD
   \<and> GetCrossShardHash (fst (snd (DelCrossShardTxs ex_ledger ex_pool2
         [(1, [ex_txA]), (7, [ex_txC]), (2, [ex_txC])]))) 2 = Inl ErrNotFound"
proof -
  have absent: "Shards ex_pool2 7 = None" by (simp add: ex_pool2_def)
  have eq: "DelCrossShardTxs ex_ledger ex_pool2 [(1, [ex_txA]), (7, [ex_txC]), (2, [ex_txC])] =
     DelCrossShardTxs ex_ledger ex_pool2 [(1, [ex_txA])]"
    using DelCrossShardTxs_early_return
      [OF absent, of "[ex_txC]" ex_ledger "[(1, [ex_txA])]" "[(2, [ex_txC])]"]
    by simp
  show ?thesis
    unfolding eq
    by (simp add: ex_pool2_def ex_ledger_def ex_txA_def ex_msgA_def shardMap_def
        SaveCrossShardHash_def SaveCrossShardHash_lgr_def NewShardIDUnchecked_def
        GetCrossShardHash_def)
qed

subsection \<open>Ingestion\<close>

lemma Shards_AddShardInfo [simp]: "Shards (snd (AddShardInfo keys lgr pool s)) = Shards pool"
  by (simp add: AddShardInfo_def Let_def split: option.splits sum.splits)

lemma shardMap_ensureShard [simp]: "shardMap (ensureShard pool sid) k = shardMap pool k"
  by (simp add: shardMap_def ensureShard_def split: option.splits)

lemma ensureShard_present: "shardMap pool sid h = Some v \<Longrightarrow> ensureShard pool sid = pool"
  by (simp add: shardMap_def ensureShard_def split: option.splits)

lemma Shards_ensureShard_eq:
  "Shards (ensureShard pool sid) k = (if k = sid then Some (shardMap pool sid) else Shards pool k)"
  by (simp add: shardMap_def ensureShard_def split: option.splits)

lemma Shards_AddCrossShardInfo:
  "Shards (snd (snd (AddCrossShardInfo keys lgr pool msg))) =
     (case shardMap pool (ToUint64 (FromShardID (MsgInfo msg)))
             (PreCrossShardMsgHash (MsgInfo msg)) of
        Some present \<Rightarrow> Shards (ensureShard pool (ToUint64 (FromShardID (MsgInfo msg))))
      | None \<Rightarrow> (Shards (ensureShard pool (ToUint64 (FromShardID (MsgInfo msg)))))
           (ToUint64 (FromShardID (MsgInfo msg)) \<mapsto>
              (shardMap pool (ToUint64 (FromShardID (MsgInfo msg))))
                (PreCrossShardMsgHash (MsgInfo msg) \<mapsto> msg)))"
  by (simp add: AddCrossShardInfo_def Let_def split: option.splits sum.splits)

lemma shardMap_AddCrossShardInfo:
  "shardMap (snd (snd (AddCrossShardInfo keys lgr pool msg))) k =
     (if k = ToUint64 (FromShardID (MsgInfo msg)) \<and>
         shardMap pool k (PreCrossShardMsgHash (MsgInfo msg)) = None
      then (shardMap pool k)(PreCrossShardMsgHash (MsgInfo msg) \<mapsto> msg)
      else shardMap pool k)"
  by (auto simp add: shardMap_def Shards_AddCrossShardInfo Shards_ensureShard_eq
      split: option.splits)

lemma dom_shardMap_AddCrossShardInfo_all:
  "dom (shardMap (snd (AddCrossShardInfo_all keys lgr pool msgs)) (ToUint64 s)) =
     dom (shardMap pool (ToUint64 s)) \<union>
     (\<lambda>m. PreCrossShardMsgHash (MsgInfo m)) ` {m \<in> set msgs. FromShardID (MsgInfo m) = s}"
proof (induction msgs arbitrary: lgr pool)
  case Nil
  then show ?case by simp
next
  case (Cons msg msgs)
  obtain e lgr1 pool1 where r: "AddCrossShardInfo keys lgr pool msg = (e, lgr1, pool1)"
    by (cases "AddCrossShardInfo keys lgr pool msg")
  have d: "dom (shardMap pool1 (ToUint64 s)) =
      dom (shardMap pool (ToUint64 s)) \<union>
        (if FromShardID (MsgInfo msg) = s then {PreCrossShardMsgHash (MsgInfo msg)} else {})"
    using shardMap_AddCrossShardInfo [of keys lgr pool msg "ToUint64 s"] r
    by (auto simp add: ToUint64_def split: if_splits)
  show ?case
    using Cons.IH [of lgr1 pool1] by (auto simp add: r d)
qed

lemma AddCrossShardInfo_present:
  "shardMap pool (ToUint64 (FromShardID (MsgInfo msg))) (PreCrossShardMsgHash (MsgInfo msg)) \<noteq> None
   \<Longrightarrow> AddCrossShardInfo keys lgr pool msg = (None, lgr, pool)"
  by (auto simp add: AddCrossShardInfo_def Let_def ensureShard_present)

text \<open>
  Claim C7. Start from a pool whose map for shard \<open>s\<close> is empty and run any sequence of
  \<^verbatim>\<open>AddCrossShardInfo\<close> calls, failed ones included. The map of \<open>s\<close> then holds as
  many entries as there are different \<^verbatim>\<open>PreCrossShardMsgHash\<close> values among the
  messages of \<open>s\<close> in the sequence; when all messages come from \<open>s\<close> and their hashes
  differ, that is the length of the sequence. A call whose hash is already in the map of
  its shard returns no error and changes neither the ledger nor the pool.
\<close>

theorem AddCrossShardInfo_count_and_idempotence:
  "(shardMap pool (ToUint64 s) = Map.empty
      \<longrightarrow> card (dom (shardMap (snd (AddCrossShardInfo_all keys lgr pool msgs)) (ToUint64 s))) =
            card ((\<lambda>m. PreCrossShardMsgHash (MsgInfo m)) `
                    {m \<in> set msgs. FromShardID (MsgInfo m) = s}))
   \<and> (shardMap pool (ToUint64 s) = Map.empty \<and> (\<forall>m\<in>set msgs. FromShardID (MsgInfo m) = s) \<and>
      distinct (map (\<lambda>m. PreCrossShardMsgHash (MsgInfo m)) msgs)
      \<longrightarrow> card (dom (shardMap (snd (AddCrossShardInfo_all keys lgr pool msgs)) (ToUint64 s))) =
            length msgs)
   \<and> (shardMap pool (ToUint64 (FromShardID (MsgInfo msg)))
        (PreCrossShardMsgHash (MsgInfo msg)) \<noteq> None
      \<longrightarrow> AddCrossShardInfo keys lgr pool msg = (None, lgr, pool))"
proof (intro conjI impI)
  assume "shardMap pool (ToUint64 s) = Map.empty"
  then show "card (dom (shardMap (snd (AddCrossShardInfo_all keys lgr pool msgs)) (ToUint64 s))) =
      card ((\<lambda>m. PreCrossShardMsgHash (MsgInfo m)) ` {m \<in> set msgs. FromShardID (MsgInfo m) = s})"
    by (simp add: dom_shardMap_AddCrossShardInfo_all)
next
  assume a: "shardMap pool (ToUint64 s) = Map.empty \<and> (\<forall>m\<in>set msgs. FromShardID (MsgInfo m) = s) \<and>
      distinct (map (\<lambda>m. PreCrossShardMsgHash (MsgInfo m)) msgs)"
  then have "{m \<in> set msgs. FromShardID (MsgInfo m) = s} = set msgs" by auto
  then have "dom (shardMap (snd (AddCrossShardInfo_all keys lgr pool msgs)) (ToUint64 s)) =
      set (map (\<lambda>m. PreCrossShardMsgHash (MsgInfo m)) msgs)"
    using a by (simp add: dom_shardMap_AddCrossShardInfo_all)
  then show "card (dom (shardMap (snd (AddCrossShardInfo_all keys lgr pool msgs)) (ToUint64 s))) =
      length msgs"
    using a distinct_card [of "map (\<lambda>m. PreCrossShardMsgHash (MsgInfo m)) msgs"] by simp
next
  assume "shardMap pool (ToUint64 (FromShardID (MsgInfo msg)))
        (PreCrossShardMsgHash (MsgInfo msg)) \<noteq> None"
  then show "AddCrossShardInfo keys lgr pool msg = (None, lgr, pool)"
    by (rule AddCrossShardInfo_present)
qed

theorem AddCrossShardInfo_count_and_idempotence_witness:
  "card (dom (shardMap (snd (AddCrossShardInfo_all ex_keys ex_ledger (InitCrossShardPool 0 100)
       [ex_msgA, ex_msgB])) (ToUint64 1))) = 2
   \<and> AddCrossShardInfo ex_keys ex_ledger ex_poolA ex_msgA = (None, ex_ledger, ex_poolA)"
proof -
  have h1: "shardMap (InitCrossShardPool 0 100) (ToUint64 1) = Map.empty"
    by (simp add: shardMap_def InitCrossShardPool_def)
  have h2: "\<forall>m\<in>set [ex_msgA, ex_msgB]. FromShardID (MsgInfo m) = 1"
    by (simp add: ex_msgA_def ex_msgB_def)
  have h3: "distinct (map (\<lambda>m. PreCrossShardMsgHash (MsgInfo m)) [ex_msgA, ex_msgB])"
    by (simp add: ex_msgA_def ex_msgB_def)
  have h4: "shardMap ex_poolA (ToUint64 (FromShardID (MsgInfo ex_msgA)))
        (PreCrossShardMsgHash (MsgInfo ex_msgA)) \<noteq> None"
    by (simp add: shardMap_def ex_poolA_def ex_msgA_def ToUint64_def)
  have c: "card (dom (shardMap (snd (AddCrossShardInfo_all ex_keys ex_ledger
       (InitCrossShardPool 0 100) [ex_msgA, ex_msgB])) (ToUint64 1))) = length [ex_msgA, ex_msgB]"
    using AddCrossShardInfo_count_and_idempotence
      [of "InitCrossShardPool 0 100" 1 ex_keys ex_ledger "[ex_msgA, ex_msgB]" ex_msgA,
        THEN conjunct2, THEN conjunct1] h1 h2 h3
    by blast
  have i: "AddCrossShardInfo ex_keys ex_ledger ex_poolA ex_msgA = (None, ex_ledger, ex_poolA)"
    using AddCrossShardInfo_count_and_idempotence
      [of ex_poolA 1 ex_keys ex_ledger "[]" ex_msgA, THEN conjunct2, THEN conjunct2] h4
    by blast
  from c i show ?thesis by simp
qed

text \<open>
  What a failed write leaves behind, for every ledger, pool and message: the error of
  that step, the ledger as it was, and the pool with the message in the map of its shard.
\<close>

lemma AddCrossShardInfo_persist_error_state:
  "shardMap pool (ToUint64 (FromShardID (MsgInfo msg))) (PreCrossShardMsgHash (MsgInfo msg)) = None
   \<and> SaveCrossShardMsgByHash lgr (PreCrossShardMsgHash (MsgInfo msg)) msg = Inl err
   \<longrightarrow> AddCrossShardInfo keys lgr pool msg =
         (Some (SaveCrossShardMsgFailed (FromShardID (MsgInfo msg))
                  (PreCrossShardMsgHash (MsgInfo msg)) err),
          lgr,
          pool\<lparr>Shards := (Shards pool)(ToUint64 (FromShardID (MsgInfo msg)) \<mapsto>
            (shardMap pool (ToUint64 (FromShardID (MsgInfo msg))))
              (PreCrossShardMsgHash (MsgInfo msg) \<mapsto> msg))\<rparr>)"
  by (simp add: AddCrossShardInfo_def Let_def ensureShard_def shardMap_def split: option.splits)

text \<open>
  Claim C5 (the code does not do what the claim says). On an empty pool and a ledger that
  refuses the write, \<^verbatim>\<open>AddCrossShardInfo\<close> returns the error of the persist step and
  leaves the ledger as it was, but the message, which was not in the map of shard 1
  before, is in it afterwards: it is stored in the map ahead of the write and nothing
  takes it out again. The same function reads an entry in the map as a message already
  saved: a second call with the same message, now on a ledger that accepts every write,
  returns no error and persists nothing, and the ledger never holds the message.
\<close>

theorem AddCrossShardInfo_failed_persist_keeps_message:
  "shardMap (InitCrossShardPool 0 100) 1 1 = None
   \<and> AddCrossShardInfo ex_keys ex_ledger_failing (InitCrossShardPool 0 100) ex_msgA =
       (Some (SaveCrossShardMsgFailed 1 1 ErrStore), ex_ledger_failing, ex_pool_unsaved)
   \<and> shardMap ex_pool_unsaved 1 1 = Some ex_msgA
   \<and> AddCrossShardInfo ex_keys ex_ledger ex_pool_unsaved ex_msgA =
       (None, ex_ledger, ex_pool_unsaved)
   \<and> GetCrossShardMsgByHash ex_ledger 1 = Inl ErrNotFound"
proof (intro conjI)
  show "shardMap (InitCrossShardPool 0 100) 1 1 = None"
    by (simp add: shardMap_def InitCrossShardPool_def)
  show "AddCrossShardInfo ex_keys ex_ledger_failing (InitCrossShardPool 0 100) ex_msgA =
       (Some (SaveCrossShardMsgFailed 1 1 ErrStore), ex_ledger_failing, ex_pool_unsaved)"
    by (simp add: AddCrossShardInfo_def Let_def ensureShard_def shardMap_def
        InitCrossShardPool_def ex_ledger_failing_def ex_msgA_def ToUint64_def
        SaveCrossShardMsgByHash_def ex_pool_unsaved_def)
  show p: "shardMap ex_pool_unsaved 1 1 = Some ex_msgA"
    by (simp add: shardMap_def ex_pool_unsaved_def)
  show "AddCrossShardInfo ex_keys ex_ledger ex_pool_unsaved ex_msgA =
       (None, ex_ledger, ex_pool_unsaved)"
    by (rule AddCrossShardInfo_present) (simp add: p ex_msgA_def ToUint64_def)
  show "GetCrossShardMsgByHash ex_ledger 1 = Inl ErrNotFound"
    by (simp add: GetCrossShardMsgByHash_def ex_ledger_def)
qed

subsection \<open>Collection\<close>

text \<open>Unfolding one iteration of a walk whose bound is written as a numeral.\<close>

lemmas GetCrossShardTxs_walk_numeral =
  GetCrossShardTxs_walk.simps(2) [of "pred_numeral k" for k, folded numeral_eq_Suc]

lemmas InitShardInfo_walk_numeral =
  InitShardInfo_walk.simps(2) [of "pred_numeral k" for k, folded numeral_eq_Suc]

text \<open>
  Claim C4, as stated, fails: for the non-root shard 5 on a ledger without a parent, the
  call returns the empty mapping, although the pool holds the chain of shard 1, which the
  loop over the pool's shards would deliver as a batch of two transactions.
\<close>

theorem GetCrossShardTxs_no_parent_counterexample:
  "\<not> IsRootShard ex_env 5 \<and> ParentLedger ex_ledgerAB = None
   \<and> GetCrossShardTxs 5 ex_env ex_ledgerAB ex_poolAB 5 20 [1] = Some (Inr Map.empty)
   \<and> GetCrossShardTxs_shards 5 ex_env ex_ledgerAB ex_poolAB 5 [1] Map.empty =
       Some (Inr [1 \<mapsto> [ex_txA, ex_txB]])"
  by (simp add: GetCrossShardTxs_def ex_env_def ex_ledgerAB_def ex_poolAB_def
      GetCrossShardHashByShardID_def GetCrossShardHash_def GetCrossShardMsgByHash_def
      ex_txA_def ex_txB_def ex_msgA_def ex_msgB_def GetCrossShardTxs_walk_numeral)

text \<open>
  Claim C4, amended. For a non-root \<open>fromShardID\<close>, when the ledger has no parent
  ledger, or the parent ledger answers not-found for block \<open>parentblkNum - 1\<close>,
  \<^verbatim>\<open>GetCrossShardTxs\<close> returns at once, without error, the empty mapping: nothing for
  the parent and nothing for the shards of the pool, which are not walked.
\<close>

theorem GetCrossShardTxs_no_parent:
  "\<not> IsRootShard env fromShardID \<and>
   (ParentLedger lgr = None \<or>
    (\<exists>g. ParentLedger lgr = Some g \<and> g (parentblkNum - 1) fromShardID = Inl ErrNotFound))
   \<longrightarrow> GetCrossShardTxs n env lgr pool fromShardID parentblkNum order = Some (Inr Map.empty)"
  by (auto simp add: GetCrossShardTxs_def)

theorem GetCrossShardTxs_no_parent_witness:
  "GetCrossShardTxs 5 ex_env ex_ledgerAB ex_poolAB 5 20 [1] = Some (Inr Map.empty)
   \<and> GetCrossShardTxs 5 ex_env ex_ledgerAB_parent ex_poolAB 5 20 [1] = Some (Inr Map.empty)"
proof -
  have r: "\<not> IsRootShard ex_env 5" by (simp add: ex_env_def)
  have a: "ParentLedger ex_ledgerAB = None" by (simp add: ex_ledgerAB_def)
  have b: "\<exists>g. ParentLedger ex_ledgerAB_parent = Some g \<and> g (20 - 1) 5 = Inl ErrNotFound"
    by (simp add: ex_ledgerAB_parent_def)
  from GetCrossShardTxs_no_parent [of ex_env 5 ex_ledgerAB 20 5 ex_poolAB "[1]"]
    GetCrossShardTxs_no_parent [of ex_env 5 ex_ledgerAB_parent 20 5 ex_poolAB "[1]"] r a b
  show ?thesis by blast
qed

subsection \<open>Recovery\<close>

lemma shardMap_Shards_update:
  "shardMap (p\<lparr>Shards := (Shards p)(sid \<mapsto> m)\<rparr>) k = (if k = sid then m else shardMap p k)"
  by (simp add: shardMap_def)

lemma entriesOf_Cons:
  "PreCrossShardMsgHash (MsgInfo msg) \<notin> (\<lambda>m. PreCrossShardMsgHash (MsgInfo m)) ` set msgs \<Longrightarrow>
   m0(PreCrossShardMsgHash (MsgInfo msg) \<mapsto> msg) ++ entriesOf msgs = m0 ++ entriesOf (msg # msgs)"
proof -
  assume a: "PreCrossShardMsgHash (MsgInfo msg) \<notin> (\<lambda>m. PreCrossShardMsgHash (MsgInfo m)) ` set msgs"
  have "PreCrossShardMsgHash (MsgInfo msg) \<notin> dom (entriesOf msgs)"
    using a by (simp add: entriesOf_def dom_map_of_conv_image_fst image_image)
  then show ?thesis
    by (auto simp add: entriesOf_def map_add_def fun_eq_iff split: option.splits)
qed

lemma InitShardInfo_walk_returns_chain:
  "InitShardInfo_walk n lgr s h pool = Some (None, pool') \<Longrightarrow>
   \<exists>msgs. rootChain lgr h msgs \<and> length msgs < n \<and>
     distinct (map (\<lambda>m. PreCrossShardMsgHash (MsgInfo m)) msgs) \<and>
     (\<forall>m\<in>set msgs. shardMap pool (ToUint64 s) (PreCrossShardMsgHash (MsgInfo m)) = None) \<and>
     shardMap pool' (ToUint64 s) = shardMap pool (ToUint64 s) ++ entriesOf msgs \<and>
     (\<forall>k. k \<noteq> ToUint64 s \<longrightarrow> shardMap pool' k = shardMap pool k) \<and>
     ShardInfo pool' = ShardInfo pool"
proof (induction n arbitrary: h pool)
  case 0
  then show ?case by simp
next
  case (Suc n)
  show ?case
  proof (cases "GetCrossShardMsgByHash lgr h")
    case (Inl err)
    with Suc.prems have "err = ErrNotFound" "pool' = pool"
      by (auto split: if_splits)
    with Inl have "rootChain lgr h []" by simp
    then show ?thesis
      using \<open>pool' = pool\<close> by (intro exI [of _ "[]"]) (simp add: entriesOf_def)
  next
    case (Inr msg)
    let ?k = "PreCrossShardMsgHash (MsgInfo msg)"
    let ?m = "shardMap pool (ToUint64 s)"
    show ?thesis
    proof (cases "?m ?k")
      case (Some present)
      then have e: "ensureShard pool (ToUint64 s) = pool"
        by (rule ensureShard_present)
      from Suc.prems Inr Some e
      have "InitShardInfo_walk n lgr s h pool = Some (None, pool')"
        by (simp add: Let_def)
      from Suc.IH [OF this] obtain msgs where c: "rootChain lgr h msgs"
        and f: "\<forall>m\<in>set msgs. ?m (PreCrossShardMsgHash (MsgInfo m)) = None"
        by blast
      from c Inr obtain rest where "msgs = msg # rest" by (cases msgs) auto
      with f Some show ?thesis by simp
    next
      case None
      let ?pool2 = "(ensureShard pool (ToUint64 s))\<lparr>Shards :=
          (Shards (ensureShard pool (ToUint64 s)))(ToUint64 s \<mapsto> ?m(?k \<mapsto> msg))\<rparr>"
      from Suc.prems Inr None
      have "InitShardInfo_walk n lgr s (CrossShardMsgRoot (MsgInfo msg)) ?pool2 = Some (None, pool')"
        by (simp add: Let_def)
      from Suc.IH [OF this] obtain msgs where
        c: "rootChain lgr (CrossShardMsgRoot (MsgInfo msg)) msgs" and l: "length msgs < n" and
        d: "distinct (map (\<lambda>m. PreCrossShardMsgHash (MsgInfo m)) msgs)" and
        f: "\<forall>m\<in>set msgs. shardMap ?pool2 (ToUint64 s) (PreCrossShardMsgHash (MsgInfo m)) = None" and
        r: "shardMap pool' (ToUint64 s) = shardMap ?pool2 (ToUint64 s) ++ entriesOf msgs" and
        o: "\<forall>k. k \<noteq> ToUint64 s \<longrightarrow> shardMap pool' k = shardMap ?pool2 k" and
        i: "ShardInfo pool' = ShardInfo ?pool2"
        by blast
      have p2: "shardMap ?pool2 (ToUint64 s) = ?m(?k \<mapsto> msg)"
        by (simp add: shardMap_Shards_update)
      have fresh: "?k \<notin> (\<lambda>m. PreCrossShardMsgHash (MsgInfo m)) ` set msgs"
        using f p2 by auto
      have f': "\<forall>m\<in>set (msg # msgs). ?m (PreCrossShardMsgHash (MsgInfo m)) = None"
        using f p2 None by (auto split: if_splits)
      have r': "shardMap pool' (ToUint64 s) = ?m ++ entriesOf (msg # msgs)"
        using r p2 entriesOf_Cons [OF fresh] by simp
      have o': "\<forall>k. k \<noteq> ToUint64 s \<longrightarrow> shardMap pool' k = shardMap pool k"
        using o by (simp add: shardMap_Shards_update)
      have i': "ShardInfo pool' = ShardInfo pool"
        using i by (simp add: ensureShard_def split: option.splits)
      have "rootChain lgr h (msg # msgs)" using c Inr by simp
      moreover have "length (msg # msgs) < Suc n" using l by simp
      moreover have "distinct (map (\<lambda>m. PreCrossShardMsgHash (MsgInfo m)) (msg # msgs))"
        using d fresh by simp
      ultimately show ?thesis
        using f' r' o' i' by blast
    qed
  qed
qed

lemma InitShardInfo_walk_follows_chain:
  "rootChain lgr h msgs \<Longrightarrow> length msgs < n \<Longrightarrow>
   distinct (map (\<lambda>m. PreCrossShardMsgHash (MsgInfo m)) msgs) \<Longrightarrow>
   \<forall>m\<in>set msgs. shardMap pool (ToUint64 s) (PreCrossShardMsgHash (MsgInfo m)) = None \<Longrightarrow>
   \<exists>pool'. InitShardInfo_walk n lgr s h pool = Some (None, pool')"
proof (induction msgs arbitrary: n h pool)
  case Nil
  then obtain n' where "n = Suc n'" by (cases n) auto
  with Nil show ?case by simp
next
  case (Cons msg msgs)
  let ?k = "PreCrossShardMsgHash (MsgInfo msg)"
  let ?m = "shardMap pool (ToUint64 s)"
  let ?pool2 = "(ensureShard pool (ToUint64 s))\<lparr>Shards :=
      (Shards (ensureShard pool (ToUint64 s)))(ToUint64 s \<mapsto> ?m(?k \<mapsto> msg))\<rparr>"
  from Cons.prems(2) obtain n' where n: "n = Suc n'" and l: "length msgs < n'"
    by (cases n) auto
  have g: "GetCrossShardMsgByHash lgr h = Inr msg"
    and c: "rootChain lgr (CrossShardMsgRoot (MsgInfo msg)) msgs"
    using Cons.prems(1) by simp_all
  have none: "?m ?k = None" using Cons.prems(4) by simp
  have d: "distinct (map (\<lambda>m. PreCrossShardMsgHash (MsgInfo m)) msgs)"
    using Cons.prems(3) by simp
  have f: "\<forall>m\<in>set msgs. shardMap ?pool2 (ToUint64 s) (PreCrossShardMsgHash (MsgInfo m)) = None"
  proof
    fix m assume m: "m \<in> set msgs"
    have "?k \<notin> (\<lambda>m. PreCrossShardMsgHash (MsgInfo m)) ` set msgs"
      using Cons.prems(3) by simp
    moreover have "PreCrossShardMsgHash (MsgInfo m) \<in> (\<lambda>m. PreCrossShardMsgHash (MsgInfo m)) ` set msgs"
      using m by (rule imageI)
    ultimately have "PreCrossShardMsgHash (MsgInfo m) \<noteq> ?k"
      by (rule_tac notI) simp
    then show "shardMap ?pool2 (ToUint64 s) (PreCrossShardMsgHash (MsgInfo m)) = None"
      using Cons.prems(4) m by (simp add: shardMap_Shards_update)
  qed
  from Cons.IH [OF c l d f] obtain pool' where
    "InitShardInfo_walk n' lgr s (CrossShardMsgRoot (MsgInfo msg)) ?pool2 = Some (None, pool')"
    by blast
  then show ?case
    using n g none by (simp add: Let_def)
qed

lemma InitShardInfo_walk_stuck:
  "GetCrossShardMsgByHash lgr h = Inr msg \<Longrightarrow>
   shardMap pool (ToUint64 s) (PreCrossShardMsgHash (MsgInfo msg)) = Some present \<Longrightarrow>
   InitShardInfo_walk n lgr s h pool = None"
  by (induction n) (simp_all add: Let_def ensureShard_present)

lemma rootChain_unique: "rootChain lgr h a \<Longrightarrow> rootChain lgr h b \<Longrightarrow> a = b"
proof (induction a arbitrary: h b)
  case Nil
  then show ?case by (cases b) auto
next
  case (Cons x a)
  then show ?case by (cases b) auto
qed

lemmas spec_backward_walk_numeral =
  spec_backward_walk.simps(2) [of "pred_numeral k" for k, folded numeral_eq_Suc]

text \<open>
  Claim C1, as stated, fails: the ledger holds two messages of shard 1, the first under
  hash 1 and the second under the first one's root, hash 2, and the pointer is hash 1.
  The walk of \<^verbatim>\<open>InitShardInfo\<close> recovers the second message as well, while the walk
  that sets the current hash to the \<^verbatim>\<open>PreviousMessageHash\<close> of the fetched message
  stays at hash 1 and recovers the first message only.
\<close>

theorem InitShardInfo_walk_backward_counterexample:
  "entryAfter (InitShardInfo_walk 5 ex_ledgerAB 1 1 (InitCrossShardPool 0 100)) 1 2 =
     Some (Some ex_msgB)
   \<and> entryAfter (spec_backward_walk 5 ex_ledgerAB 1 1 (InitCrossShardPool 0 100)) 1 2 =
     Some None"
  by (simp add: entryAfter_def InitShardInfo_walk_numeral spec_backward_walk_numeral
      ex_ledgerAB_def GetCrossShardMsgByHash_def ex_msgA_def ex_msgB_def ToUint64_def
      ensureShard_def shardMap_def InitCrossShardPool_def Let_def)

text \<open>
  Claim C1, amended. The walk goes forward: after the message at the current hash is
  fetched and inserted under its \<^verbatim>\<open>PreCrossShardMsgHash\<close>, the current hash becomes
  that message's \<^verbatim>\<open>CrossShardMsgRoot\<close>, until the ledger answers not-found.
  Whenever the walk returns without error, the map of the shard has gained exactly the
  messages of the chain that starts at the first hash and follows
  \<^verbatim>\<open>CrossShardMsgRoot\<close> up to the first hash not found, each under its
  \<^verbatim>\<open>PreCrossShardMsgHash\<close>, and the maps of the other shards are as before. And the
  walk does return, within one iteration more than the chain is long, when the hashes of
  the chain's messages differ from each other and from the keys already in the map.
  (What happens when a fetched message is already in the map is not part of this
  statement.)
\<close>

theorem InitShardInfo_walk_forward_chain:
  "(InitShardInfo_walk n lgr s h pool = Some (None, pool')
      \<longrightarrow> (\<exists>msgs. rootChain lgr h msgs \<and> length msgs < n \<and>
            shardMap pool' (ToUint64 s) = shardMap pool (ToUint64 s) ++ entriesOf msgs \<and>
            (\<forall>k. k \<noteq> ToUint64 s \<longrightarrow> shardMap pool' k = shardMap pool k)))
   \<and> (rootChain lgr h msgs \<and> length msgs < n \<and>
      distinct (map (\<lambda>m. PreCrossShardMsgHash (MsgInfo m)) msgs) \<and>
      (\<forall>m\<in>set msgs. shardMap pool (ToUint64 s) (PreCrossShardMsgHash (MsgInfo m)) = None)
      \<longrightarrow> (\<exists>pool2. InitShardInfo_walk n lgr s h pool = Some (None, pool2) \<and>
            shardMap pool2 (ToUint64 s) = shardMap pool (ToUint64 s) ++ entriesOf msgs))"
proof (intro conjI impI)
  assume "InitShardInfo_walk n lgr s h pool = Some (None, pool')"
  from InitShardInfo_walk_returns_chain [OF this]
  show "\<exists>msgs. rootChain lgr h msgs \<and> length msgs < n \<and>
            shardMap pool' (ToUint64 s) = shardMap pool (ToUint64 s) ++ entriesOf msgs \<and>
            (\<forall>k. k \<noteq> ToUint64 s \<longrightarrow> shardMap pool' k = shardMap pool k)"
    by blast
next
  assume a: "rootChain lgr h msgs \<and> length msgs < n \<and>
      distinct (map (\<lambda>m. PreCrossShardMsgHash (MsgInfo m)) msgs) \<and>
      (\<forall>m\<in>set msgs. shardMap pool (ToUint64 s) (PreCrossShardMsgHash (MsgInfo m)) = None)"
  then obtain pool2 where w: "InitShardInfo_walk n lgr s h pool = Some (None, pool2)"
    using InitShardInfo_walk_follows_chain [of lgr h msgs n pool s] by blast
  from InitShardInfo_walk_returns_chain [OF w] obtain msgs' where
    c: "rootChain lgr h msgs'" and
    r: "shardMap pool2 (ToUint64 s) = shardMap pool (ToUint64 s) ++ entriesOf msgs'"
    by blast
  from c a have "msgs' = msgs" by (blast intro: rootChain_unique)
  with w r show "\<exists>pool2. InitShardInfo_walk n lgr s h pool = Some (None, pool2) \<and>
            shardMap pool2 (ToUint64 s) = shardMap pool (ToUint64 s) ++ entriesOf msgs"
    by blast
qed

theorem InitShardInfo_walk_forward_chain_witness:
  "\<exists>pool2. InitShardInfo_walk 5 ex_ledgerAB 1 1 (InitCrossShardPool 0 100) = Some (None, pool2) \<and>
     shardMap pool2 (ToUint64 1) =
       shardMap (InitCrossShardPool 0 100) (ToUint64 1) ++ entriesOf [ex_msgA, ex_msgB] \<and>
     (\<exists>msgs. rootChain ex_ledgerAB 1 msgs \<and> length msgs < 5 \<and>
        shardMap pool2 (ToUint64 1) =
          shardMap (InitCrossShardPool 0 100) (ToUint64 1) ++ entriesOf msgs \<and>
        (\<forall>k. k \<noteq> ToUint64 1 \<longrightarrow> shardMap pool2 k = shardMap (InitCrossShardPool 0 100) k))"
proof -
  have c: "rootChain ex_ledgerAB 1 [ex_msgA, ex_msgB]"
    by (simp add: ex_ledgerAB_def GetCrossShardMsgByHash_def ex_msgA_def ex_msgB_def)
  have l: "length [ex_msgA, ex_msgB] < 5" by simp
  have d: "distinct (map (\<lambda>m. PreCrossShardMsgHash (MsgInfo m)) [ex_msgA, ex_msgB])"
    by (simp add: ex_msgA_def ex_msgB_def)
  have f: "\<forall>m\<in>set [ex_msgA, ex_msgB].
      shardMap (InitCrossShardPool 0 100) (ToUint64 1) (PreCrossShardMsgHash (MsgInfo m)) = None"
    by (simp add: shardMap_def InitCrossShardPool_def)
  from InitShardInfo_walk_forward_chain
    [of 5 ex_ledgerAB 1 1 "InitCrossShardPool 0 100" _ "[ex_msgA, ex_msgB]", THEN conjunct2]
    c l d f
  obtain pool2 where
    w: "InitShardInfo_walk 5 ex_ledgerAB 1 1 (InitCrossShardPool 0 100) = Some (None, pool2)" and
    r: "shardMap pool2 (ToUint64 1) =
       shardMap (InitCrossShardPool 0 100) (ToUint64 1) ++ entriesOf [ex_msgA, ex_msgB]"
    by blast
  from InitShardInfo_walk_forward_chain
    [of 5 ex_ledgerAB 1 1 "InitCrossShardPool 0 100" pool2 "[]", THEN conjunct1] w
  have "\<exists>msgs. rootChain ex_ledgerAB 1 msgs \<and> length msgs < 5 \<and>
        shardMap pool2 (ToUint64 1) =
          shardMap (InitCrossShardPool 0 100) (ToUint64 1) ++ entriesOf msgs \<and>
        (\<forall>k. k \<noteq> ToUint64 1 \<longrightarrow> shardMap pool2 k = shardMap (InitCrossShardPool 0 100) k)"
    by blast
  with w r show ?thesis by blast
qed

text \<open>
  Claim C2 (the code does not do what the claim says). A fetched message that is already
  in the map of its shard makes the walk take \<^verbatim>\<open>continue\<close> with the current hash
  unchanged, so the same message is fetched again, for ever: no number of iterations
  makes the walk return. This is so at start-up, on an empty pool, when the stored chain
  comes back to a hash it has passed, and also when the pool already holds the message
  the pointer leads to.
\<close>

theorem InitShardInfo_present_never_returns:
  "InitShardInfo n ex_ledger_cycle (InitCrossShardPool 0 100) = None
   \<and> InitShardInfo n ex_ledgerAB ex_poolAB = None"
proof
  let ?p1 = "(InitCrossShardPool 0 100)\<lparr>ShardInfo := [1 \<mapsto> True]\<rparr>"
  let ?p3 = "?p1\<lparr>Shards := [1 \<mapsto> [1 \<mapsto> ex_msgA, 2 \<mapsto> ex_msgB_back]]\<rparr>"
  have g1: "GetCrossShardMsgByHash ex_ledger_cycle 1 = Inr ex_msgA"
    by (simp add: GetCrossShardMsgByHash_def ex_ledger_cycle_def)
  have stuck: "InitShardInfo_walk k ex_ledger_cycle 1 1 ?p3 = None" for k
    by (rule InitShardInfo_walk_stuck [OF g1, of _ _ ex_msgA])
       (simp add: shardMap_def ToUint64_def ex_msgA_def)
  have "InitShardInfo_walk n ex_ledger_cycle 1 1 ?p1 = None"
  proof (cases n)
    case 0
    then show ?thesis by simp
  next
    case (Suc n1)
    show ?thesis
    proof (cases n1)
      case 0
      with Suc show ?thesis
        by (simp add: GetCrossShardMsgByHash_def ex_ledger_cycle_def ex_msgA_def Let_def
            shardMap_def ensureShard_def InitCrossShardPool_def ToUint64_def)
    next
      case (Suc n2)
      have "InitShardInfo_walk (Suc (Suc n2)) ex_ledger_cycle 1 1 ?p1 =
          InitShardInfo_walk n2 ex_ledger_cycle 1 1 ?p3"
        by (simp add: GetCrossShardMsgByHash_def ex_ledger_cycle_def ex_msgA_def
            ex_msgB_back_def Let_def shardMap_def ensureShard_def InitCrossShardPool_def
            ToUint64_def)
      with stuck \<open>n = Suc n1\<close> Suc show ?thesis by simp
    qed
  qed
  then show "InitShardInfo n ex_ledger_cycle (InitCrossShardPool 0 100) = None"
    by (simp add: InitShardInfo_def GetAllShardIDs_def GetCrossShardHashByShardID_def
        GetCrossShardHash_def ex_ledger_cycle_def ex_ledgerAB_def InitCrossShardPool_def)
next
  have g1: "GetCrossShardMsgByHash ex_ledgerAB 1 = Inr ex_msgA"
    by (simp add: GetCrossShardMsgByHash_def ex_ledgerAB_def)
  have "InitShardInfo_walk n ex_ledgerAB 1 1 (ex_poolAB\<lparr>ShardInfo := (ShardInfo ex_poolAB)(1 \<mapsto> True)\<rparr>) = None"
    by (rule InitShardInfo_walk_stuck [OF g1, of _ _ ex_msgA])
       (simp add: shardMap_def ToUint64_def ex_msgA_def ex_poolAB_def)
  then show "InitShardInfo n ex_ledgerAB ex_poolAB = None"
    by (simp add: InitShardInfo_def GetAllShardIDs_def GetCrossShardHashByShardID_def
        GetCrossShardHash_def ex_ledgerAB_def)
qed

text \<open>
  Claim C6 (the code does not do what the claim says). The ledger lists shard 3 and then
  shard 1; shard 3 has no pointer, shard 1 has one and two stored messages. The
  \<^verbatim>\<open>break\<close> taken for shard 3 ends the loop over the shard ids: the call returns
  without error with shard 3 marked, shard 1 not marked and nothing recovered for it.
\<close>

theorem InitShardInfo_missing_pointer_stops_all:
  "InitShardInfo 5 ex_ledger_gap (InitCrossShardPool 0 100) =
     Some (None, (InitCrossShardPool 0 100)\<lparr>ShardInfo := [3 \<mapsto> True]\<rparr>)
   \<and> ShardInfo ((InitCrossShardPool 0 100)\<lparr>ShardInfo := [3 \<mapsto> True]\<rparr>) 1 = None
   \<and> shardMap ((InitCrossShardPool 0 100)\<lparr>ShardInfo := [3 \<mapsto> True]\<rparr>) 1 1 = None"
  by (simp add: InitShardInfo_def GetAllShardIDs_def GetCrossShardHashByShardID_def
      GetCrossShardHash_def ex_ledger_gap_def ex_ledgerAB_def InitCrossShardPool_def
      shardMap_def)

subsection \<open>Collection followed by eviction\<close>

text \<open>
  Claim C3 (the code does not do what the claim says). The two messages of shard 1 are
  ingested on an empty ledger and pool; \<^verbatim>\<open>GetCrossShardTxs\<close> for the root shard
  returns both, first the one the pointer names and then its successor. After
  \<^verbatim>\<open>DelCrossShardTxs\<close> with exactly that mapping the pointer of shard 1 is the
  \<^verbatim>\<open>PreCrossShardMsgHash\<close> of the second message, but the first message, which was
  delivered, is still in the map: the entries are removed by the
  \<^verbatim>\<open>CrossShardMsgRoot\<close> of each transaction, while the map is keyed by
  \<^verbatim>\<open>PreCrossShardMsgHash\<close>.
\<close>

theorem GetCrossShardTxs_DelCrossShardTxs_leaves_delivered:
  "AddCrossShardInfo_all ex_keys ex_ledger (InitCrossShardPool 0 100) [ex_msgA, ex_msgB] =
     (ex_ledgerAB, ex_poolAB)
   \<and> GetCrossShardTxs 5 ex_env ex_ledgerAB ex_poolAB 0 20 [1] =
       Some (Inr [1 \<mapsto> [ex_txA, ex_txB]])
   \<and> shardMap (snd (snd (DelCrossShardTxs ex_ledgerAB ex_poolAB [(1, [ex_txA, ex_txB])]))) 1 =
       [1 \<mapsto> ex_msgA]
   \<and> GetCrossShardHash (fst (snd (DelCrossShardTxs ex_ledgerAB ex_poolAB
         [(1, [ex_txA, ex_txB])]))) 1 = Inr 2"
proof (intro conjI)
  show "AddCrossShardInfo_all ex_keys ex_ledger (InitCrossShardPool 0 100) [ex_msgA, ex_msgB] =
     (ex_ledgerAB, ex_poolAB)"
    by (simp add: AddCrossShardInfo_def AddShardInfo_def Let_def ensureShard_def shardMap_def
        InitCrossShardPool_def ex_ledger_def ex_ledgerAB_def ex_poolAB_def ex_msgA_def
        ex_msgB_def ex_keys_def ToUint64_def SaveCrossShardMsgByHash_def
        GetCrossShardHashByShardID_def GetCrossShardHash_def SaveCrossShardHash_def
        SaveCrossShardHash_lgr_def SaveAllShardIDs_def fun_upd_twist)
       blast
  show "GetCrossShardTxs 5 ex_env ex_ledgerAB ex_poolAB 0 20 [1] =
       Some (Inr [1 \<mapsto> [ex_txA, ex_txB]])"
    by (simp add: GetCrossShardTxs_def ex_env_def ex_ledgerAB_def ex_poolAB_def
        GetCrossShardHashByShardID_def GetCrossShardHash_def GetCrossShardMsgByHash_def
        ex_txA_def ex_txB_def ex_msgA_def ex_msgB_def GetCrossShardTxs_walk_numeral)
  show "shardMap (snd (snd (DelCrossShardTxs ex_ledgerAB ex_poolAB [(1, [ex_txA, ex_txB])]))) 1 =
       [1 \<mapsto> ex_msgA]"
    by (simp add: ex_poolAB_def ex_txA_def ex_txB_def ex_msgA_def ex_msgB_def shardMap_def)
  show "GetCrossShardHash (fst (snd (DelCrossShardTxs ex_ledgerAB ex_poolAB
         [(1, [ex_txA, ex_txB])]))) 1 = Inr 2"
    by (simp add: ex_poolAB_def ex_ledgerAB_def ex_txA_def ex_txB_def ex_msgA_def ex_msgB_def
        SaveCrossShardHash_def SaveCrossShardHash_lgr_def NewShardIDUnchecked_def
        GetCrossShardHash_def)
qed

end
